theory Spec2Isabelle
  imports Complex_Main
begin

section \<open>Python values: exceptions, arrays, images\<close>

text \<open>
  Exceptions are values. \<open>ValueError\<close>, \<open>IndexError\<close> and \<open>UnboundLocalError\<close> are the
  ones the modelled statements raise themselves; \<open>Raised name\<close> is an exception that a
  collaborator (a base-class method or a library call that is not part of the sources)
  raises, with its class name.
\<close>

datatype error = ValueError | IndexError | UnboundLocalError | Raised string

definition and_then :: "error + 'a \<Rightarrow> ('a \<Rightarrow> error + 'b) \<Rightarrow> error + 'b" where
  "and_then m f = (case m of Inl e \<Rightarrow> Inl e | Inr x \<Rightarrow> f x)"

text \<open>
  A numpy array of floats is its shape and its elements in row-major order. Floating
  point numbers are modelled as reals: rounding errors, infinities and NaN are outside
  the model.
\<close>

type_synonym vec = "real list"

record ndarray =
  shape :: "nat list"
  flat :: vec

text \<open>\<open>x.reshape(*shp)\<close> of a flat array: numpy raises ValueError when the sizes differ.\<close>

definition reshape :: "vec \<Rightarrow> nat list \<Rightarrow> error + ndarray" where
  "reshape x shp =
     (if prod_list shp = length x then Inr \<lparr>shape = shp, flat = x\<rparr> else Inl ValueError)"

definition flatten :: "ndarray \<Rightarrow> vec" where
  "flatten a = flat a"

text \<open>\<open>x.max()\<close>: the maximum of a flat array; numpy raises ValueError on an empty one.\<close>

definition ndarray_max :: "vec \<Rightarrow> error + real" where
  "ndarray_max x = (case x of [] \<Rightarrow> Inl ValueError | v # vs \<Rightarrow> Inr (fold max vs v))"

text \<open>
  An image (ITK or SimpleITK) is a voxel array with its physical geometry. The two
  libraries' image classes carry the same data, so one record stands for both.
\<close>

record image =
  pixels :: ndarray
  spacing :: "real list"
  origin :: "real list"
  direction :: "real list"

definition GetArrayFromImage :: "image \<Rightarrow> ndarray" where
  "GetArrayFromImage img = pixels img"

definition GetSpacing :: "image \<Rightarrow> real list" where
  "GetSpacing img = spacing img"

text \<open>\<open>sitkh.get_sitk_from_itk_image\<close>: the same image in the other library's class.\<close>

definition get_sitk_from_itk_image :: "image \<Rightarrow> image" where
  "get_sitk_from_itk_image image_itk = image_itk"

text \<open>
  A Stack object, with the attributes the sources read and write. Objects live in a
  store; a reference is an address, so that "the same object" is "the same address".
\<close>

record stack =
  itk :: image
  sitk :: image
  sitk_mask :: image
  filename :: string

type_synonym addr = nat
type_synonym heap = "addr \<Rightarrow> stack"

section \<open>The solver object (ADMMSolver.py)\<close>

text \<open>
  The attributes of the base class \<open>Solver\<close> that ADMMSolver.py reads or writes
  (\<open>self._alpha\<close> is \<open>self_alpha\<close>, and so on), and the two attributes the subclass adds.
\<close>

record Solver =
  self_stacks :: "addr list"
  self_reconstruction :: addr
  self_alpha_cut :: real
  self_alpha :: real
  self_iter_max :: int
  self_minimizer :: string
  self_deconvolution_mode :: string
  self_predefined_covariance :: "real list option"
  self_verbose :: int
  self_reconstruction_shape :: "nat list"
  self_residual_ell2 :: "real option"
  self_computational_time :: "real option"

record ADMMSolver = Solver +
  self_rho :: real
  self_iterations :: int

text \<open>
  Modelled from the spec: \<open>Solver.__init__\<close> (Solver.py is not among the sources). The
  shared state of section 4.3: every constructor argument is stored in the attribute of
  its name; the reconstruction volume's array shape is recorded; no statistics exist
  before the first run.
\<close>

definition Solver_init ::
  "heap \<Rightarrow> addr list \<Rightarrow> addr \<Rightarrow> real \<Rightarrow> real \<Rightarrow> int \<Rightarrow> string \<Rightarrow> string \<Rightarrow>
   real list option \<Rightarrow> int \<Rightarrow> Solver" where
  "Solver_init h stacks reconstruction alpha_cut alpha iter_max minimizer
     deconvolution_mode predefined_covariance verbose =
     \<lparr>self_stacks = stacks,
      self_reconstruction = reconstruction,
      self_alpha_cut = alpha_cut,
      self_alpha = alpha,
      self_iter_max = iter_max,
      self_minimizer = minimizer,
      self_deconvolution_mode = deconvolution_mode,
      self_predefined_covariance = predefined_covariance,
      self_verbose = verbose,
      self_reconstruction_shape = shape (GetArrayFromImage (sitk (h reconstruction))),
      self_residual_ell2 = None,
      self_computational_time = None\<rparr>"

text \<open>\<open>ADMMSolver.__init__\<close>: the superclass constructor, then \<open>_rho\<close> and \<open>_iterations\<close>.\<close>

definition ADMMSolver_init ::
  "heap \<Rightarrow> addr list \<Rightarrow> addr \<Rightarrow> real \<Rightarrow> real \<Rightarrow> int \<Rightarrow> string \<Rightarrow> string \<Rightarrow>
   real list option \<Rightarrow> real \<Rightarrow> int \<Rightarrow> int \<Rightarrow> ADMMSolver" where
  "ADMMSolver_init h stacks reconstruction alpha_cut alpha iter_max minimizer
     deconvolution_mode predefined_covariance rho iterations verbose =
     Solver.extend
       (Solver_init h stacks reconstruction alpha_cut alpha iter_max minimizer
          deconvolution_mode predefined_covariance verbose)
       (ADMMSolver.fields rho iterations)"

definition set_rho :: "ADMMSolver \<Rightarrow> real \<Rightarrow> ADMMSolver" where
  "set_rho self rho = self\<lparr>self_rho := rho\<rparr>"

definition get_rho :: "ADMMSolver \<Rightarrow> real" where
  "get_rho self = self_rho self"


definition get_iterations :: "ADMMSolver \<Rightarrow> int" where
  "get_iterations self = self_iterations self"

text \<open>
  Modelled from the spec: the setters \<open>set_alpha\<close> and \<open>set_iter_max\<close> of the base class
  (not among the sources), "pure setters; no recomputation until run is called".
\<close>

definition set_alpha :: "ADMMSolver \<Rightarrow> real \<Rightarrow> ADMMSolver" where
  "set_alpha self alpha = self\<lparr>self_alpha := alpha\<rparr>"

definition set_iter_max :: "ADMMSolver \<Rightarrow> int \<Rightarrow> ADMMSolver" where
  "set_iter_max self iter_max = self\<lparr>self_iter_max := iter_max\<rparr>"

subsection \<open>Collaborators\<close>

text \<open>
  A linear operator is a closure on flat arrays; applying it may raise. The keyword
  arguments of \<open>admm.ADMMLinearSolver(...)\<close> are a record, one field per keyword.
\<close>

type_synonym linop = "vec \<Rightarrow> error + vec"
type_synonym arrayop = "ndarray \<Rightarrow> error + ndarray"

record ADMMLinearSolver_kwargs =
  kw_dimension :: nat
  kw_A :: linop
  kw_A_adj :: linop
  kw_B :: linop
  kw_B_adj :: linop
  kw_b :: vec
  kw_x0 :: vec
  kw_x_scale :: real
  kw_alpha :: real
  kw_data_loss :: string
  kw_minimizer :: string
  kw_iter_max :: int
  kw_rho :: real
  kw_iterations :: int
  kw_verbose :: int

record ADMMLinearSolver_result =
  res_x :: vec
  res_computational_time :: real

text \<open>
  The methods and library calls whose code is not among the sources are parameters of
  the model: the acquisition operators and the data vector of the base class
  (\<open>get_A\<close>, \<open>get_A_adj\<close>, \<open>get_b\<close>), the gradient operators of
  \<open>linop.LinearOperators3D(spacing).get_gradient_operators()\<close>, and the numerical
  solver: \<open>ADMMLinearSolver env kw\<close> stands for constructing the solver with the keyword
  arguments \<open>kw\<close>, running it, and reading \<open>get_x()\<close> and \<open>get_computational_time()\<close>.
  Each may raise.
\<close>

record env =
  get_A :: "ADMMSolver \<Rightarrow> heap \<Rightarrow> error + linop"
  get_A_adj :: "ADMMSolver \<Rightarrow> heap \<Rightarrow> error + linop"
  get_b :: "ADMMSolver \<Rightarrow> heap \<Rightarrow> error + vec"
  get_gradient_operators :: "real list \<Rightarrow> error + (arrayop \<times> arrayop)"
  ADMMLinearSolver :: "ADMMLinearSolver_kwargs \<Rightarrow> error + ADMMLinearSolver_result"

text \<open>
  Modelled from the spec: \<open>Solver.get_x0\<close> (not among the sources). The current
  reconstruction volume "acts as both initial value and output buffer": the initial
  iterate is its flattened voxel array, read as \<open>compute_statistics\<close> reads it.
\<close>

definition get_x0 :: "ADMMSolver \<Rightarrow> heap \<Rightarrow> vec" where
  "get_x0 self h = flatten (GetArrayFromImage (sitk (h (self_reconstruction self))))"

text \<open>
  Modelled from the spec: \<open>Solver._get_itk_image_from_array_vec\<close> (not among the
  sources). The solver "replaces the numeric content" of the volume and returns an
  "updated Volume (same geometry as input)": the image with the voxels of the vector and
  the array shape and geometry of the reference image.
\<close>

definition get_itk_image_from_array_vec :: "vec \<Rightarrow> image \<Rightarrow> image" where
  "get_itk_image_from_array_vec nda_vec image_itk_ref =
     image_itk_ref\<lparr>pixels := \<lparr>shape = shape (pixels image_itk_ref), flat = nda_vec\<rparr>\<rparr>"

subsection \<open>The reconstruction run\<close>

text \<open>
  \<open>ADMMSolver._run_reconstruction\<close>, lines 172 to 204: the operators, the initial
  iterate, its scale, the gradient operators wrapped to flat arrays, and the keyword
  arguments with which the numerical solver is constructed. (The informational printing
  of \<open>_print_info_text\<close> has no effect on the state and is left out.)
\<close>

definition ADMMSolver_solver_kwargs ::
  "env \<Rightarrow> ADMMSolver \<Rightarrow> heap \<Rightarrow> error + ADMMLinearSolver_kwargs" where
  "ADMMSolver_solver_kwargs env self h =
     and_then (get_A env self h) (\<lambda>A.
     and_then (get_A_adj env self h) (\<lambda>A_adj.
     and_then (get_b env self h) (\<lambda>b.
     let x0 = get_x0 self h in
     and_then (ndarray_max x0) (\<lambda>x_scale.
     let spacing = GetSpacing (sitk (h (self_reconstruction self))) in
     and_then (get_gradient_operators env spacing) (\<lambda>(grad, grad_adj).
     let X_shape = self_reconstruction_shape self in
     and_then (reshape x0 X_shape) (\<lambda>x0_arr.
     and_then (grad x0_arr) (\<lambda>z.
     let Z_shape = shape z;
         B = (\<lambda>x. and_then (reshape x X_shape) (\<lambda>a.
                and_then (grad a) (\<lambda>g. Inr (flatten g))));
         B_adj = (\<lambda>x. and_then (reshape x Z_shape) (\<lambda>a.
                and_then (grad_adj a) (\<lambda>g. Inr (flatten g))))
     in Inr \<lparr>kw_dimension = 3,
             kw_A = A, kw_A_adj = A_adj,
             kw_B = B, kw_B_adj = B_adj,
             kw_b = b,
             kw_x0 = x0,
             kw_x_scale = x_scale,
             kw_alpha = self_alpha self,
             kw_data_loss = ''linear'',
             kw_minimizer = ''lsmr'',
             kw_iter_max = self_iter_max self,
             kw_rho = self_rho self,
             kw_iterations = self_iterations self,
             kw_verbose = self_verbose self\<rparr>)))))))"

text \<open>
  \<open>ADMMSolver._run_reconstruction\<close>: the solver is constructed and run, the computational
  time is stored, and the \<open>itk\<close> and then the \<open>sitk\<close> attribute of the object that
  \<open>self._reconstruction\<close> refers to are assigned.
\<close>

definition ADMMSolver_run_reconstruction ::
  "env \<Rightarrow> ADMMSolver \<Rightarrow> heap \<Rightarrow> error + (ADMMSolver \<times> heap)" where
  "ADMMSolver_run_reconstruction env self h =
     and_then (ADMMSolver_solver_kwargs env self h) (\<lambda>kw.
     and_then (ADMMLinearSolver env kw) (\<lambda>solver.
     let self1 = self\<lparr>self_computational_time := Some (res_computational_time solver)\<rparr>;
         r = self_reconstruction self1;
         h1 = h(r := (h r)\<lparr>itk := get_itk_image_from_array_vec (res_x solver) (itk (h r))\<rparr>);
         h2 = h1(r := (h1 r)\<lparr>sitk := get_sitk_from_itk_image (itk (h1 r))\<rparr>)
     in Inr (self1, h2)))"

text \<open>
  The call of the constructor in \<open>main\<close> (bin/reconstructRestingStateVolume.py, branch
  \<open>args.regularization == "TV"\<close>), with the parsed command line as a record. The data
  loss is among the parsed options; the ADMM solver's constructor has no parameter for it.
\<close>

record parsed_args =
  args_regularization :: string
  args_data_loss :: string
  args_alpha :: real
  args_minimizer :: string
  args_iter_max :: int
  args_rho :: real
  args_ADMM_iterations :: int
  args_verbose :: int

definition main_ADMMSolver :: "heap \<Rightarrow> parsed_args \<Rightarrow> addr list \<Rightarrow> addr \<Rightarrow> ADMMSolver" where
  "main_ADMMSolver h args stacks HR_volume =
     ADMMSolver_init h stacks HR_volume 3 (args_alpha args) (args_iter_max args)
       (args_minimizer args) ''full_3D'' None (args_rho args)
       (args_ADMM_iterations args) (args_verbose args)"

subsection \<open>The entry point of a run\<close>







subsection \<open>The iteration of the numerical solver\<close>










subsection \<open>Statistics\<close>

text \<open>
  Modelled from the spec: \<open>Solver._get_residual_ell2\<close> (not among the sources), the
  "residual norm \<open>||A(x) - b||\<close>" of section 4.3, for the acquisition operator and the
  data vector of the solver. Subtracting arrays of different lengths raises.
\<close>

definition vec_sub :: "vec \<Rightarrow> vec \<Rightarrow> error + vec" where
  "vec_sub u v = (if length u = length v then Inr (map2 (-) u v) else Inl ValueError)"

definition ell2_norm :: "vec \<Rightarrow> real" where
  "ell2_norm v = sqrt (sum_list (map (\<lambda>t. t\<^sup>2) v))"

definition get_residual_ell2 :: "env \<Rightarrow> ADMMSolver \<Rightarrow> heap \<Rightarrow> vec \<Rightarrow> error + real" where
  "get_residual_ell2 env self h x =
     and_then (get_A env self h) (\<lambda>A.
     and_then (A x) (\<lambda>Ax.
     and_then (get_b env self h) (\<lambda>b.
     and_then (vec_sub Ax b) (\<lambda>r. Inr (ell2_norm r)))))"

text \<open>
  \<open>ADMMSolver.compute_statistics\<close>: the flattened array of the current reconstruction
  is read and the residual is assigned to \<open>self._residual_ell2\<close>. The store is returned
  with the object, to state what the call leaves alone.
\<close>

definition ADMMSolver_compute_statistics ::
  "env \<Rightarrow> ADMMSolver \<Rightarrow> heap \<Rightarrow> error + (ADMMSolver \<times> heap)" where
  "ADMMSolver_compute_statistics env self h =
     (let reconstruction_nda_vec =
            flatten (GetArrayFromImage (sitk (h (self_reconstruction self))))
      in and_then (get_residual_ell2 env self h reconstruction_nda_vec) (\<lambda>r.
           Inr (self\<lparr>self_residual_ell2 := Some r\<rparr>, h)))"

subsection \<open>The setting-specific file name\<close>

text \<open>
  \<open>str\<close> of a Python integer: decimal digits, with a leading minus sign for a negative
  number.
\<close>

definition digit_char :: "nat \<Rightarrow> char" where
  "digit_char d = ''0123456789'' ! d"

function str_nat :: "nat \<Rightarrow> string" where
  "str_nat n = (if n < 10 then [digit_char n] else str_nat (n div 10) @ [digit_char (n mod 10)])"
  by pat_completeness auto
termination
  by (relation "measure id") auto

declare str_nat.simps [simp del]

definition str_int :: "int \<Rightarrow> string" where
  "str_int i = (if i < 0 then CHR ''-'' # str_nat (nat (- i)) else str_nat (nat i))"

text \<open>\<open>s.replace(old, new)\<close> for strings \<open>old\<close> and \<open>new\<close> of one character.\<close>

definition replace_char :: "char \<Rightarrow> char \<Rightarrow> string \<Rightarrow> string" where
  "replace_char old new s = map (\<lambda>c. if c = old then new else c) s"

text \<open>
  \<open>ADMMSolver.get_setting_specific_filename\<close>. The rendering \<open>str\<close> of a float is a
  matter of floating point formatting and is a parameter, \<open>str_float\<close>. \<open>alpha\<close> and \<open>rho\<close>
  are floats, as \<open>main\<close> parses them (\<open>type=float\<close>), and a float is modelled by its value:
  Python values that are equal as numbers but print differently (the integer \<open>1\<close> and the
  float \<open>1.0\<close>, or \<open>0.0\<close> and \<open>-0.0\<close>) are one value here, so the model says nothing about
  pairs of states that differ only in this way.
\<close>

definition ADMMSolver_get_setting_specific_filename ::
  "(real \<Rightarrow> string) \<Rightarrow> ADMMSolver \<Rightarrow> string \<Rightarrow> string" where
  "ADMMSolver_get_setting_specific_filename str_float self prefix =
     (let filename = prefix;
          filename = filename @ ''stacks'' @ str_int (int (length (self_stacks self)));
          filename = (if self_alpha self > 0 then (filename @ ''_ADMM'') @ ''_TV'' else filename);
          filename = filename @ ''_'' @ self_minimizer self;
          filename = filename @ ''_alpha'' @ str_float (self_alpha self);
          filename = filename @ ''_itermax'' @ str_int (self_iter_max self);
          filename = filename @ ''_rho'' @ str_float (self_rho self);
          filename = filename @ ''_ADMMiterations'' @ str_int (self_iterations self);
          filename = replace_char CHR ''.'' CHR ''p'' filename
      in filename)"

section \<open>Resampling of 2D images (MyImageProcessingFunctions.py)\<close>

text \<open>
  A 2D array with its two extents and its elements in row-major order; a 3 x 3
  transformation matrix in homogeneous coordinates, as its three rows.
\<close>

record array2d =
  rows :: nat
  cols :: nat
  elems :: "real list"

type_synonym row3 = "real \<times> real \<times> real"
type_synonym matrix3 = "row3 \<times> row3 \<times> row3"

definition dot3 :: "matrix3 \<Rightarrow> row3 \<Rightarrow> row3" where
  "dot3 T v =
     (case (T, v) of
        (((a00, a01, a02), (a10, a11, a12), (a20, a21, a22)), (x, y, w)) \<Rightarrow>
          (a00 * x + a01 * y + a02 * w,
           a10 * x + a11 * y + a12 * w,
           a20 * x + a21 * y + a22 * w))"

text \<open>\<open>np.round(x).astype('int')\<close>: numpy rounds a half to the even neighbour.\<close>

definition np_round :: "real \<Rightarrow> int" where
  "np_round x =
     (let f = \<lfloor>x\<rfloor>; d = x - of_int f
      in if d < 1 / 2 then f else if 1 / 2 < d then f + 1 else if even f then f else f + 1)"

text \<open>
  Integer indexing \<open>a.ravel()[i]\<close>: a negative index counts from the end; an index out of
  range raises IndexError.
\<close>

definition py_index :: "int \<Rightarrow> nat \<Rightarrow> error + nat" where
  "py_index i n =
     (if 0 \<le> i \<and> i < int n then Inr (nat i)
      else if - int n \<le> i \<and> i < 0 then Inr (nat (i + int n))
      else Inl IndexError)"

definition ravel_get :: "array2d \<Rightarrow> int \<Rightarrow> error + real" where
  "ravel_get a i = and_then (py_index i (length (elems a))) (\<lambda>k. Inr (elems a ! k))"

text \<open>
  Indexing \<open>a[x][y]\<close> with numpy floats, as \<open>np.round\<close>, \<open>np.floor\<close> and the product of a
  float matrix return them: numpy accepts only integers as indices and raises IndexError,
  whatever the values are.
\<close>

definition index_by_float :: "array2d \<Rightarrow> real \<Rightarrow> real \<Rightarrow> error + real" where
  "index_by_float a x y = Inl IndexError"

fun sequence :: "(error + 'a) list \<Rightarrow> error + 'a list" where
  "sequence [] = Inr []"
| "sequence (m # ms) = and_then m (\<lambda>x. and_then (sequence ms) (\<lambda>xs. Inr (x # xs)))"

text \<open>The pixel positions \<open>(i, j)\<close> of an array, in row-major order.\<close>

definition mgrid :: "array2d \<Rightarrow> (nat \<times> nat) list" where
  "mgrid a = concat (map (\<lambda>i. map (\<lambda>j. (i, j)) [0..<cols a]) [0..<rows a])"

text \<open>\<open>flag_fast_computation = 1\<close>, the first statement of \<open>resampling\<close>.\<close>

definition flag_fast_computation :: bool where
  "flag_fast_computation = True"

text \<open>
  Order 0, fast computation: the position of a reference pixel in the floating image is
  rounded; a coordinate below zero is set to zero, then a coordinate at or beyond the
  extent is set to zero; the pixel of the floating image at the resulting row-wise index
  is taken. The padding value is not used. The position is computed over the reals: the
  model agrees with the floating point product where that product is exact (as for a
  matrix with integer entries) and may round to the other neighbour where the exact
  position lies at, or within a rounding error of, a half.
\<close>

definition fast_pixel :: "array2d \<Rightarrow> matrix3 \<Rightarrow> nat \<times> nat \<Rightarrow> error + real" where
  "fast_pixel floating transformation ij =
     (case dot3 transformation (real (fst ij), real (snd ij), 1) of (p0, p1, p2) \<Rightarrow>
        let r0 = np_round p0;
            r1 = np_round p1;
            r0 = (if r0 < 0 then 0 else r0);
            r1 = (if r1 < 0 then 0 else r1);
            r0 = (if int (rows floating) \<le> r0 then 0 else r0);
            r1 = (if int (cols floating) \<le> r1 then 0 else r1);
            indices = r1 + r0 * int (cols floating)
        in ravel_get floating indices)"

text \<open>
  Order 0, the "intuitive approach" (the branch that the flag switches off). Inside the
  floating image the rounded position, an array of floats, is used as index.
\<close>

definition slow_pixel :: "array2d \<Rightarrow> matrix3 \<Rightarrow> real \<Rightarrow> nat \<times> nat \<Rightarrow> error + real" where
  "slow_pixel floating transformation padding ij =
     (case dot3 transformation (real (fst ij), real (snd ij), 1) of (p0, p1, p2) \<Rightarrow>
        if 0 \<le> p0 \<and> 0 \<le> p1
           \<and> p0 \<le> of_int (int (rows floating) - 1) \<and> p1 \<le> of_int (int (cols floating) - 1)
        then index_by_float floating (of_int (np_round p0)) (of_int (np_round p1))
        else Inr padding)"

text \<open>
  Order 1: bilinear interpolation inside the floating image, the padding value elsewhere.
  The four neighbours are indexed with the floats \<open>np.floor\<close> returns.
\<close>

definition linear_pixel :: "array2d \<Rightarrow> matrix3 \<Rightarrow> real \<Rightarrow> nat \<times> nat \<Rightarrow> error + real" where
  "linear_pixel floating transformation padding ij =
     (case dot3 transformation (real (fst ij), real (snd ij), 1) of (p0, p1, p2) \<Rightarrow>
        if 0 \<le> p0 \<and> 0 \<le> p1
           \<and> p0 < of_int (int (rows floating) - 1) \<and> p1 < of_int (int (cols floating) - 1)
        then
          let xfloor = real_of_int \<lfloor>p0\<rfloor>;
              yfloor = real_of_int \<lfloor>p1\<rfloor>;
              xp = p0 - xfloor;
              yp = p1 - yfloor;
              wa = (1 - xp) * (1 - yp);
              wb = xp * (1 - yp);
              wc = xp * yp;
              wd = (1 - xp) * yp
          in and_then (index_by_float floating xfloor yfloor) (\<lambda>Ia.
             and_then (index_by_float floating (xfloor + 1) yfloor) (\<lambda>Ib.
             and_then (index_by_float floating (xfloor + 1) (yfloor + 1)) (\<lambda>Ic.
             and_then (index_by_float floating xfloor (yfloor + 1)) (\<lambda>Id.
             Inr (wa * Ia + wb * Ib + wc * Ic + wd * Id)))))
        else Inr padding)"

text \<open>
  \<open>resampling(reference, floating, transformation, order=0, padding=0)\<close>. The result has
  the shape of the reference image. The two loops assign each pixel once, so the order in
  which they visit the pixels does not show in the result. For an order other than 0 and
  1 the final \<open>return warped_image\<close> reads a name that was never assigned.
\<close>

definition resampling ::
  "array2d \<Rightarrow> array2d \<Rightarrow> matrix3 \<Rightarrow> int \<Rightarrow> real \<Rightarrow> error + array2d" where
  "resampling reference floating transformation order padding =
     (if order = 0 then
        (if flag_fast_computation then
           and_then (sequence (map (fast_pixel floating transformation) (mgrid reference)))
             (\<lambda>warped_image. Inr (reference\<lparr>elems := warped_image\<rparr>))
         else
           and_then (sequence (map (slow_pixel floating transformation padding) (mgrid reference)))
             (\<lambda>warped_image. Inr (reference\<lparr>elems := warped_image\<rparr>)))
      else if order = 1 then
        and_then (sequence (map (linear_pixel floating transformation padding) (mgrid reference)))
          (\<lambda>warped_image. Inr (reference\<lparr>elems := warped_image\<rparr>))
      else Inl UnboundLocalError)"

section \<open>Concrete inputs\<close>

subsection \<open>A small scene for concrete runs\<close>

text \<open>
  A volume of shape 1 x 1 x 2 with voxels 1 and 2, stored at address 0 of a store whose
  objects are all this volume; operators that are the identity; a numerical solver that
  returns its initial iterate with every voxel raised by one.
\<close>

definition scene_image :: "real list \<Rightarrow> image" where
  "scene_image sp =
     \<lparr>pixels = \<lparr>shape = [1, 1, 2], flat = [1, 2]\<rparr>,
      spacing = sp, origin = [0, 0, 0], direction = [1, 0, 0, 0, 1, 0, 0, 0, 1]\<rparr>"

definition scene_stack :: "real list \<Rightarrow> stack" where
  "scene_stack sp =
     \<lparr>itk = scene_image sp, sitk = scene_image sp, sitk_mask = scene_image sp,
      filename = ''volume''\<rparr>"

definition scene_heap :: heap where
  "scene_heap = (\<lambda>a. scene_stack [1, 1, 1])"

definition scene_env :: env where
  "scene_env =
     \<lparr>get_A = (\<lambda>self h. Inr (\<lambda>x. Inr x)),
      get_A_adj = (\<lambda>self h. Inr (\<lambda>x. Inr x)),
      get_b = (\<lambda>self h. Inr [1, 2]),
      get_gradient_operators = (\<lambda>sp. Inr ((\<lambda>a. Inr a), (\<lambda>a. Inr a))),
      ADMMLinearSolver = (\<lambda>kw.
        Inr \<lparr>res_x = map (\<lambda>v. v + 1) (kw_x0 kw), res_computational_time = 0\<rparr>)\<rparr>"

definition scene_solver :: "heap \<Rightarrow> ADMMSolver" where
  "scene_solver h = ADMMSolver_init h [0] 0 3 (3 / 100) 10 ''lsmr'' ''full_3D'' None (1 / 2) 10 0"


definition scene_env_refusing :: env where
  "scene_env_refusing =
     scene_env\<lparr>ADMMLinearSolver := (\<lambda>kw.
       if kw_data_loss kw = ''linear'' \<and> kw_minimizer kw = ''lsmr''
       then Inl (Raised ''solver constructed'')
       else ADMMLinearSolver scene_env kw)\<rparr>"





text \<open>The renderings of the two floats of the scene, 0.03 and 0.5.\<close>

definition scene_str_float :: "real \<Rightarrow> string" where
  "scene_str_float x = (if x = 3 / 100 then ''0.03'' else ''0.5'')"

text \<open>
  A floating image with the intensities 1, 2 in its first and 3, 4 in its second row, a
  reference image of the same shape, and the translation by one row:
  the reference pixel \<open>(i, j)\<close> lies at \<open>(i - 1, j)\<close> in the floating image.
\<close>

definition demo_floating :: array2d where
  "demo_floating = \<lparr>rows = 2, cols = 2, elems = [1, 2, 3, 4]\<rparr>"

definition demo_reference :: array2d where
  "demo_reference = \<lparr>rows = 2, cols = 2, elems = [0, 0, 0, 0]\<rparr>"

definition demo_shift :: matrix3 where
  "demo_shift = ((1, 0, - 1), (0, 1, 0), (0, 0, 1))"

text \<open>The translation by two rows: every reference pixel lies outside the floating image.\<close>

definition demo_shift_out :: matrix3 where
  "demo_shift_out = ((1, 0, - 2), (0, 1, 0), (0, 0, 1))"

section \<open>Properties of the reconstruction run\<close>

subsection \<open>Auxiliary facts\<close>

lemma and_then_Inr_iff:
  "and_then m f = Inr y \<longleftrightarrow> (\<exists>x. m = Inr x \<and> f x = Inr y)"
  by (cases m) (simp_all add: and_then_def)

lemma and_then_Inl_iff:
  "and_then m f = Inl e \<longleftrightarrow> m = Inl e \<or> (\<exists>x. m = Inr x \<and> f x = Inl e)"
  by (cases m) (simp_all add: and_then_def)

lemma solver_kwargs_fixed_fields:
  assumes "ADMMSolver_solver_kwargs env self h = Inr kw"
  shows "kw_data_loss kw = ''linear''" and "kw_minimizer kw = ''lsmr''"
    and "kw_x0 kw = get_x0 self h"
    and "ndarray_max (kw_x0 kw) = Inr (kw_x_scale kw)"
  using assms
  by (auto simp: ADMMSolver_solver_kwargs_def and_then_Inr_iff Let_def split: prod.splits)

lemma run_reconstruction_Inr:
  assumes "ADMMSolver_run_reconstruction env self h = Inr (self1, h1)"
  obtains kw res where
    "ADMMSolver_solver_kwargs env self h = Inr kw"
    "ADMMLinearSolver env kw = Inr res"
    "self1 = self\<lparr>self_computational_time := Some (res_computational_time res)\<rparr>"
    "h1 = h(self_reconstruction self :=
            (h (self_reconstruction self))
              \<lparr>itk := get_itk_image_from_array_vec (res_x res) (itk (h (self_reconstruction self))),
               sitk := get_sitk_from_itk_image
                 (get_itk_image_from_array_vec (res_x res) (itk (h (self_reconstruction self))))\<rparr>)"
  using assms
  by (auto simp: ADMMSolver_run_reconstruction_def and_then_Inr_iff Let_def)

lemma guarded_solver_run:
  assumes "\<And>kw. ADMMSolver_solver_kwargs env self h = Inr kw \<Longrightarrow> P kw"
  shows "ADMMSolver_run_reconstruction env self h
     = ADMMSolver_run_reconstruction
         (env\<lparr>ADMMLinearSolver := (\<lambda>kw. if P kw then ADMMLinearSolver env kw else Inl e)\<rparr>) self h"
proof -
  let ?env = "env\<lparr>ADMMLinearSolver := (\<lambda>kw. if P kw then ADMMLinearSolver env kw else Inl e)\<rparr>"
  have same: "ADMMSolver_solver_kwargs ?env self h = ADMMSolver_solver_kwargs env self h"
    by (simp add: ADMMSolver_solver_kwargs_def)
  show ?thesis
  proof (cases "ADMMSolver_solver_kwargs env self h")
    case (Inl e)
    then show ?thesis by (simp add: ADMMSolver_run_reconstruction_def same and_then_def)
  next
    case (Inr kw)
    with assms have "P kw" by simp
    with Inr show ?thesis by (simp add: ADMMSolver_run_reconstruction_def same and_then_def)
  qed
qed

lemma run_without_kwargs:
  assumes "ADMMSolver_solver_kwargs env self h = Inl e"
  shows "ADMMSolver_run_reconstruction env self h = Inl e"
  using assms by (simp add: ADMMSolver_run_reconstruction_def and_then_def)

lemma run_on_kwargs:
  assumes "ADMMSolver_solver_kwargs env self h = Inr kw"
  shows "ADMMSolver_run_reconstruction env self h =
     (case ADMMLinearSolver env kw of
        Inl err \<Rightarrow> Inl err
      | Inr solver \<Rightarrow>
          Inr (self\<lparr>self_computational_time := Some (res_computational_time solver)\<rparr>,
               h(self_reconstruction self :=
                  (h (self_reconstruction self))
                    \<lparr>itk := get_itk_image_from_array_vec (res_x solver)
                              (itk (h (self_reconstruction self))),
                     sitk := get_sitk_from_itk_image
                              (get_itk_image_from_array_vec (res_x solver)
                                 (itk (h (self_reconstruction self))))\<rparr>)))"
  using assms
  by (simp add: ADMMSolver_run_reconstruction_def and_then_def Let_def split: sum.splits)


lemma ell2_norm_difference:
  assumes "length u = length v"
  shows "ell2_norm (map2 (-) u v) = sqrt (\<Sum>i<length v. (u ! i - v ! i)\<^sup>2)"
proof -
  have "sum_list (map (\<lambda>t. t\<^sup>2) (map2 (-) u v))
      = (\<Sum>i = 0..<length v. (map (\<lambda>t. t\<^sup>2) (map2 (-) u v)) ! i)"
    using assms by (simp add: sum_list_sum_nth)
  also have "\<dots> = (\<Sum>i = 0..<length v. (u ! i - v ! i)\<^sup>2)"
    using assms by (intro sum.cong) simp_all
  finally show ?thesis by (simp only: ell2_norm_def lessThan_atLeast0)
qed

lemmas scene_defs = scene_image_def scene_stack_def scene_heap_def scene_env_def
  scene_solver_def ADMMSolver_init_def Solver_init_def Solver.defs ADMMSolver.defs

lemmas run_defs = ADMMSolver_run_reconstruction_def ADMMSolver_solver_kwargs_def and_then_def
  get_x0_def flatten_def GetArrayFromImage_def GetSpacing_def ndarray_max_def reshape_def Let_def
  get_itk_image_from_array_vec_def get_sitk_from_itk_image_def





subsection \<open>The fixed keyword arguments of the numerical solver\<close>

text \<open>
  Claim C1. Whatever data loss is configured, a run constructs its numerical solver with
  the data loss "linear". The data loss parsed from the command line does not reach the
  solver object that \<open>main\<close> constructs. A run first builds the keyword arguments; if that
  fails, the run fails with the same error; if it succeeds, the arguments have
  \<open>data_loss = "linear"\<close> and the run is the outcome of the numerical solver constructed
  with exactly these arguments: its error, or its result stored in the solver object and
  the reconstruction volume. Hence a completed run has called the solver with the data
  loss "linear", and no run changes when the numerical solver is replaced by one that
  raises for every other data loss.
\<close>

theorem data_loss_always_linear:
  "main_ADMMSolver h (args\<lparr>args_data_loss := data_loss\<rparr>) stacks HR_volume
     = main_ADMMSolver h args stacks HR_volume
   \<and> (ADMMSolver_solver_kwargs env self h' = Inl e
        \<longrightarrow> ADMMSolver_run_reconstruction env self h' = Inl e)
   \<and> (ADMMSolver_solver_kwargs env self h' = Inr kw
        \<longrightarrow> kw_data_loss kw = ''linear''
          \<and> ADMMSolver_run_reconstruction env self h' =
              (case ADMMLinearSolver env kw of
                 Inl err \<Rightarrow> Inl err
               | Inr solver \<Rightarrow>
                   Inr (self\<lparr>self_computational_time := Some (res_computational_time solver)\<rparr>,
                        h'(self_reconstruction self :=
                           (h' (self_reconstruction self))
                             \<lparr>itk := get_itk_image_from_array_vec (res_x solver)
                                       (itk (h' (self_reconstruction self))),
                              sitk := get_sitk_from_itk_image
                                       (get_itk_image_from_array_vec (res_x solver)
                                          (itk (h' (self_reconstruction self))))\<rparr>))))
   \<and> (ADMMSolver_run_reconstruction env self h' = Inr (self1, h1)
        \<longrightarrow> (\<exists>kw solver. ADMMSolver_solver_kwargs env self h' = Inr kw
              \<and> kw_data_loss kw = ''linear''
              \<and> ADMMLinearSolver env kw = Inr solver
              \<and> self_computational_time self1 = Some (res_computational_time solver)))
   \<and> ADMMSolver_run_reconstruction env self h'
     = ADMMSolver_run_reconstruction
         (env\<lparr>ADMMLinearSolver := (\<lambda>kw. if kw_data_loss kw = ''linear''
                 then ADMMLinearSolver env kw else Inl (Raised ''data_loss''))\<rparr>) self h'"
proof (intro conjI impI)
  show "main_ADMMSolver h (args\<lparr>args_data_loss := data_loss\<rparr>) stacks HR_volume
     = main_ADMMSolver h args stacks HR_volume"
    by (simp add: main_ADMMSolver_def)
  show "ADMMSolver_run_reconstruction env self h' = Inl e"
    if "ADMMSolver_solver_kwargs env self h' = Inl e"
    using that by (rule run_without_kwargs)
  show "kw_data_loss kw = ''linear''" if "ADMMSolver_solver_kwargs env self h' = Inr kw"
    using that by (rule solver_kwargs_fixed_fields)
  show "ADMMSolver_run_reconstruction env self h' =
              (case ADMMLinearSolver env kw of
                 Inl err \<Rightarrow> Inl err
               | Inr solver \<Rightarrow>
                   Inr (self\<lparr>self_computational_time := Some (res_computational_time solver)\<rparr>,
                        h'(self_reconstruction self :=
                           (h' (self_reconstruction self))
                             \<lparr>itk := get_itk_image_from_array_vec (res_x solver)
                                       (itk (h' (self_reconstruction self))),
                              sitk := get_sitk_from_itk_image
                                       (get_itk_image_from_array_vec (res_x solver)
                                          (itk (h' (self_reconstruction self))))\<rparr>)))"
    if "ADMMSolver_solver_kwargs env self h' = Inr kw"
    using that by (rule run_on_kwargs)
  show "\<exists>kw solver. ADMMSolver_solver_kwargs env self h' = Inr kw
              \<and> kw_data_loss kw = ''linear''
              \<and> ADMMLinearSolver env kw = Inr solver
              \<and> self_computational_time self1 = Some (res_computational_time solver)"
    if run: "ADMMSolver_run_reconstruction env self h' = Inr (self1, h1)"
  proof -
    from run obtain kw res where kw: "ADMMSolver_solver_kwargs env self h' = Inr kw"
      and res: "ADMMLinearSolver env kw = Inr res"
      and self1: "self1 = self\<lparr>self_computational_time := Some (res_computational_time res)\<rparr>"
      by (rule run_reconstruction_Inr)
    from kw have "kw_data_loss kw = ''linear''" by (rule solver_kwargs_fixed_fields)
    with kw res self1 show ?thesis by auto
  qed
  show "ADMMSolver_run_reconstruction env self h'
     = ADMMSolver_run_reconstruction
         (env\<lparr>ADMMLinearSolver := (\<lambda>kw. if kw_data_loss kw = ''linear''
                 then ADMMLinearSolver env kw else Inl (Raised ''data_loss''))\<rparr>) self h'"
    by (rule guarded_solver_run) (rule solver_kwargs_fixed_fields)
qed

theorem data_loss_always_linear_witness:
  "(\<exists>kw self1 h1.
       ADMMSolver_solver_kwargs scene_env
          (main_ADMMSolver scene_heap
            \<lparr>args_regularization = ''TV'', args_data_loss = ''huber'', args_alpha = 1,
             args_minimizer = ''lsmr'', args_iter_max = 5, args_rho = 1,
             args_ADMM_iterations = 2, args_verbose = 0\<rparr> [0] 0) scene_heap = Inr kw
       \<and> kw_data_loss kw = ''linear''
       \<and> ADMMSolver_run_reconstruction scene_env
          (main_ADMMSolver scene_heap
            \<lparr>args_regularization = ''TV'', args_data_loss = ''huber'', args_alpha = 1,
             args_minimizer = ''lsmr'', args_iter_max = 5, args_rho = 1,
             args_ADMM_iterations = 2, args_verbose = 0\<rparr> [0] 0) scene_heap = Inr (self1, h1)
       \<and> self_computational_time self1 = Some 0
       \<and> flat (pixels (sitk (h1 0))) = [2, 3])
   \<and> ADMMSolver_run_reconstruction scene_env_refusing
          (main_ADMMSolver scene_heap
            \<lparr>args_regularization = ''TV'', args_data_loss = ''huber'', args_alpha = 1,
             args_minimizer = ''lsmr'', args_iter_max = 5, args_rho = 1,
             args_ADMM_iterations = 2, args_verbose = 0\<rparr> [0] 0) scene_heap
        = Inl (Raised ''solver constructed'')"
proof -
  let ?self = "main_ADMMSolver scene_heap
            \<lparr>args_regularization = ''TV'', args_data_loss = ''huber'', args_alpha = 1,
             args_minimizer = ''lsmr'', args_iter_max = 5, args_rho = 1,
             args_ADMM_iterations = 2, args_verbose = 0\<rparr> [0] 0"
  obtain kw where kw: "ADMMSolver_solver_kwargs scene_env ?self scene_heap = Inr kw"
    by (simp add: run_defs scene_defs main_ADMMSolver_def)
  obtain kw' where kw': "ADMMSolver_solver_kwargs scene_env_refusing ?self scene_heap = Inr kw'"
    by (simp add: run_defs scene_defs scene_env_refusing_def main_ADMMSolver_def)
  have x0: "kw_x0 kw = [1, 2]"
    using solver_kwargs_fixed_fields(3) [OF kw]
    by (simp add: run_defs scene_defs main_ADMMSolver_def)
  have r: "self_reconstruction ?self = 0"
    by (simp add: scene_defs main_ADMMSolver_def)
  note step = data_loss_always_linear
    [THEN conjunct2, THEN conjunct2, THEN conjunct1, rule_format, OF kw]
  note step' = data_loss_always_linear
    [THEN conjunct2, THEN conjunct2, THEN conjunct1, rule_format, OF kw']
  from step have lin: "kw_data_loss kw = ''linear''" by (rule conjunct1)
  have solver: "ADMMLinearSolver scene_env kw
      = Inr \<lparr>res_x = [2, 3], res_computational_time = 0\<rparr>"
    by (simp add: scene_env_def x0)
  have "\<exists>self1 h1. ADMMSolver_run_reconstruction scene_env ?self scene_heap = Inr (self1, h1)
      \<and> self_computational_time self1 = Some 0 \<and> flat (pixels (sitk (h1 0))) = [2, 3]"
    unfolding step [THEN conjunct2] solver r
    by (simp add: get_itk_image_from_array_vec_def get_sitk_from_itk_image_def)
  moreover have "ADMMLinearSolver scene_env_refusing kw' = Inl (Raised ''solver constructed'')"
    using solver_kwargs_fixed_fields(1,2) [OF kw'] by (simp add: scene_env_refusing_def)
  then have "ADMMSolver_run_reconstruction scene_env_refusing ?self scene_heap
        = Inl (Raised ''solver constructed'')"
    unfolding step' [THEN conjunct2] by simp
  ultimately show ?thesis using kw lin by blast
qed

text \<open>
  Claim C10. Whatever minimizer the constructor is given, a run of the solver so
  constructed constructs its numerical solver with the minimizer "lsmr". As for the data
  loss: if the keyword arguments cannot be built, the run fails with the same error; if
  they can, they have \<open>minimizer = "lsmr"\<close> and the run is the outcome of the numerical
  solver constructed with exactly these arguments. Hence a completed run has called the
  solver with the minimizer "lsmr", and no run changes when the numerical solver is
  replaced by one that raises for every other minimizer.
\<close>

theorem minimizer_always_lsmr:
  "(ADMMSolver_solver_kwargs env
      (ADMMSolver_init h stacks reconstruction alpha_cut alpha iter_max minimizer
         deconvolution_mode predefined_covariance rho iterations verbose) h' = Inl e
     \<longrightarrow> ADMMSolver_run_reconstruction env
           (ADMMSolver_init h stacks reconstruction alpha_cut alpha iter_max minimizer
              deconvolution_mode predefined_covariance rho iterations verbose) h' = Inl e)
   \<and> (ADMMSolver_solver_kwargs env
      (ADMMSolver_init h stacks reconstruction alpha_cut alpha iter_max minimizer
         deconvolution_mode predefined_covariance rho iterations verbose) h' = Inr kw
     \<longrightarrow> kw_minimizer kw = ''lsmr''
       \<and> ADMMSolver_run_reconstruction env
           (ADMMSolver_init h stacks reconstruction alpha_cut alpha iter_max minimizer
              deconvolution_mode predefined_covariance rho iterations verbose) h' =
           (case ADMMLinearSolver env kw of
              Inl err \<Rightarrow> Inl err
            | Inr solver \<Rightarrow>
                Inr ((ADMMSolver_init h stacks reconstruction alpha_cut alpha iter_max minimizer
                        deconvolution_mode predefined_covariance rho iterations verbose)
                       \<lparr>self_computational_time := Some (res_computational_time solver)\<rparr>,
                     h'(reconstruction :=
                        (h' reconstruction)
                          \<lparr>itk := get_itk_image_from_array_vec (res_x solver)
                                    (itk (h' reconstruction)),
                           sitk := get_sitk_from_itk_image
                                    (get_itk_image_from_array_vec (res_x solver)
                                       (itk (h' reconstruction)))\<rparr>))))
   \<and> (ADMMSolver_run_reconstruction env self h' = Inr (self1, h1)
        \<longrightarrow> (\<exists>kw solver. ADMMSolver_solver_kwargs env self h' = Inr kw
              \<and> kw_minimizer kw = ''lsmr''
              \<and> ADMMLinearSolver env kw = Inr solver
              \<and> self_computational_time self1 = Some (res_computational_time solver)))
   \<and> ADMMSolver_run_reconstruction env self h'
     = ADMMSolver_run_reconstruction
         (env\<lparr>ADMMLinearSolver := (\<lambda>kw. if kw_minimizer kw = ''lsmr''
                 then ADMMLinearSolver env kw else Inl (Raised ''minimizer''))\<rparr>) self h'"
proof (intro conjI impI)
  let ?self = "ADMMSolver_init h stacks reconstruction alpha_cut alpha iter_max minimizer
         deconvolution_mode predefined_covariance rho iterations verbose"
  have r: "self_reconstruction ?self = reconstruction"
    by (simp add: ADMMSolver_init_def Solver_init_def Solver.defs ADMMSolver.defs)
  show "ADMMSolver_run_reconstruction env ?self h' = Inl e"
    if "ADMMSolver_solver_kwargs env ?self h' = Inl e"
    using that by (rule run_without_kwargs)
  show "kw_minimizer kw = ''lsmr''" if "ADMMSolver_solver_kwargs env ?self h' = Inr kw"
    using that by (rule solver_kwargs_fixed_fields)
  show "ADMMSolver_run_reconstruction env ?self h' =
           (case ADMMLinearSolver env kw of
              Inl err \<Rightarrow> Inl err
            | Inr solver \<Rightarrow>
                Inr (?self\<lparr>self_computational_time := Some (res_computational_time solver)\<rparr>,
                     h'(reconstruction :=
                        (h' reconstruction)
                          \<lparr>itk := get_itk_image_from_array_vec (res_x solver)
                                    (itk (h' reconstruction)),
                           sitk := get_sitk_from_itk_image
                                    (get_itk_image_from_array_vec (res_x solver)
                                       (itk (h' reconstruction)))\<rparr>)))"
    if "ADMMSolver_solver_kwargs env ?self h' = Inr kw"
    using run_on_kwargs [OF that] by (simp only: r)
  show "\<exists>kw solver. ADMMSolver_solver_kwargs env self h' = Inr kw
              \<and> kw_minimizer kw = ''lsmr''
              \<and> ADMMLinearSolver env kw = Inr solver
              \<and> self_computational_time self1 = Some (res_computational_time solver)"
    if run: "ADMMSolver_run_reconstruction env self h' = Inr (self1, h1)"
  proof -
    from run obtain kw res where kw: "ADMMSolver_solver_kwargs env self h' = Inr kw"
      and res: "ADMMLinearSolver env kw = Inr res"
      and self1: "self1 = self\<lparr>self_computational_time := Some (res_computational_time res)\<rparr>"
      by (rule run_reconstruction_Inr)
    from kw have "kw_minimizer kw = ''lsmr''" by (rule solver_kwargs_fixed_fields)
    with kw res self1 show ?thesis by auto
  qed
  show "ADMMSolver_run_reconstruction env self h'
     = ADMMSolver_run_reconstruction
         (env\<lparr>ADMMLinearSolver := (\<lambda>kw. if kw_minimizer kw = ''lsmr''
                 then ADMMLinearSolver env kw else Inl (Raised ''minimizer''))\<rparr>) self h'"
    by (rule guarded_solver_run) (rule solver_kwargs_fixed_fields)
qed

theorem minimizer_always_lsmr_witness:
  "(\<exists>kw self1 h1.
       ADMMSolver_solver_kwargs scene_env
          (ADMMSolver_init scene_heap [0] 0 3 1 5 ''L-BFGS-B'' ''full_3D'' None 1 2 0) scene_heap
         = Inr kw
       \<and> kw_minimizer kw = ''lsmr''
       \<and> ADMMSolver_run_reconstruction scene_env
          (ADMMSolver_init scene_heap [0] 0 3 1 5 ''L-BFGS-B'' ''full_3D'' None 1 2 0) scene_heap
         = Inr (self1, h1)
       \<and> self_minimizer self1 = ''L-BFGS-B''
       \<and> flat (pixels (sitk (h1 0))) = [2, 3])
   \<and> ADMMSolver_run_reconstruction scene_env_refusing
          (ADMMSolver_init scene_heap [0] 0 3 1 5 ''L-BFGS-B'' ''full_3D'' None 1 2 0) scene_heap
        = Inl (Raised ''solver constructed'')"
proof -
  let ?self = "ADMMSolver_init scene_heap [0] 0 3 1 5 ''L-BFGS-B'' ''full_3D'' None 1 2 0"
  obtain kw where kw: "ADMMSolver_solver_kwargs scene_env ?self scene_heap = Inr kw"
    by (simp add: run_defs scene_defs)
  obtain kw' where kw': "ADMMSolver_solver_kwargs scene_env_refusing ?self scene_heap = Inr kw'"
    by (simp add: run_defs scene_defs scene_env_refusing_def)
  have x0: "kw_x0 kw = [1, 2]"
    using solver_kwargs_fixed_fields(3) [OF kw] by (simp add: run_defs scene_defs)
  have m: "self_minimizer ?self = ''L-BFGS-B''"
    by (simp add: scene_defs)
  note step = minimizer_always_lsmr
    [THEN conjunct2, THEN conjunct1, rule_format, OF kw]
  note step' = minimizer_always_lsmr
    [THEN conjunct2, THEN conjunct1, rule_format, OF kw']
  from step have lsmr: "kw_minimizer kw = ''lsmr''" by (rule conjunct1)
  have solver: "ADMMLinearSolver scene_env kw
      = Inr \<lparr>res_x = [2, 3], res_computational_time = 0\<rparr>"
    by (simp add: scene_env_def x0)
  have "\<exists>self1 h1. ADMMSolver_run_reconstruction scene_env ?self scene_heap = Inr (self1, h1)
      \<and> self_minimizer self1 = ''L-BFGS-B'' \<and> flat (pixels (sitk (h1 0))) = [2, 3]"
    unfolding step [THEN conjunct2] solver
    by (simp add: m get_itk_image_from_array_vec_def get_sitk_from_itk_image_def)
  moreover have "ADMMLinearSolver scene_env_refusing kw' = Inl (Raised ''solver constructed'')"
    using solver_kwargs_fixed_fields(1,2) [OF kw'] by (simp add: scene_env_refusing_def)
  then have "ADMMSolver_run_reconstruction scene_env_refusing ?self scene_heap
        = Inl (Raised ''solver constructed'')"
    unfolding step' [THEN conjunct2] by simp
  ultimately show ?thesis using kw lsmr by blast
qed

subsection \<open>The initial iterate and its scale\<close>



text \<open>
  Claim C2. A completed run reads its initial iterate from the current reconstruction
  volume and leaves the solver result in that volume, so that a following run, also
  after \<open>set_alpha\<close> and \<open>set_iter_max\<close> and with any collaborators, starts from the
  result of the first.
\<close>

theorem second_run_starts_from_first_result:
  assumes "ADMMSolver_run_reconstruction env self h = Inr (self1, h1)"
  shows "\<exists>kw res. ADMMSolver_solver_kwargs env self h = Inr kw
           \<and> kw_x0 kw = flatten (GetArrayFromImage (sitk (h (self_reconstruction self))))
           \<and> ADMMLinearSolver env kw = Inr res
           \<and> flatten (GetArrayFromImage (sitk (h1 (self_reconstruction self1)))) = res_x res
           \<and> (\<forall>alpha iter_max env2 kw2.
                ADMMSolver_solver_kwargs env2 (set_iter_max (set_alpha self1 alpha) iter_max) h1 = Inr kw2
                \<longrightarrow> kw_x0 kw2 = res_x res)"
proof -
  from assms obtain kw res where kw: "ADMMSolver_solver_kwargs env self h = Inr kw"
    and res: "ADMMLinearSolver env kw = Inr res"
    and self1: "self1 = self\<lparr>self_computational_time := Some (res_computational_time res)\<rparr>"
    and h1: "h1 = h(self_reconstruction self :=
            (h (self_reconstruction self))
              \<lparr>itk := get_itk_image_from_array_vec (res_x res) (itk (h (self_reconstruction self))),
               sitk := get_sitk_from_itk_image
                 (get_itk_image_from_array_vec (res_x res) (itk (h (self_reconstruction self))))\<rparr>)"
    by (rule run_reconstruction_Inr)
  have x0: "kw_x0 kw = flatten (GetArrayFromImage (sitk (h (self_reconstruction self))))"
    using solver_kwargs_fixed_fields(3) [OF kw] by (simp add: get_x0_def)
  have new: "get_x0 s h1 = res_x res" if "self_reconstruction s = self_reconstruction self" for s
    using that by (simp add: h1 get_x0_def flatten_def GetArrayFromImage_def
        get_sitk_from_itk_image_def get_itk_image_from_array_vec_def)
  have "kw_x0 kw2 = res_x res"
    if "ADMMSolver_solver_kwargs env2 (set_iter_max (set_alpha self1 alpha) iter_max) h1 = Inr kw2"
    for alpha iter_max env2 kw2
    using solver_kwargs_fixed_fields(3) [OF that] new [of "set_iter_max (set_alpha self1 alpha) iter_max"]
    by (simp add: self1 set_alpha_def set_iter_max_def)
  moreover have "flatten (GetArrayFromImage (sitk (h1 (self_reconstruction self1)))) = res_x res"
    using new [of self1] by (simp add: self1 get_x0_def)
  ultimately show ?thesis using kw res x0 by blast
qed

theorem second_run_starts_from_first_result_witness:
  "\<exists>self1 h1 kw2. ADMMSolver_run_reconstruction scene_env (scene_solver scene_heap) scene_heap
        = Inr (self1, h1)
     \<and> ADMMSolver_solver_kwargs scene_env (set_iter_max (set_alpha self1 (1 / 100)) 20) h1 = Inr kw2
     \<and> get_x0 (scene_solver scene_heap) scene_heap = [1, 2]
     \<and> kw_x0 kw2 = [2, 3]"
proof -
  obtain self1 h1 where run: "ADMMSolver_run_reconstruction scene_env (scene_solver scene_heap) scene_heap
        = Inr (self1, h1)"
    by (simp add: run_defs scene_defs)
  from second_run_starts_from_first_result [OF run] obtain kw res where
    kw: "ADMMSolver_solver_kwargs scene_env (scene_solver scene_heap) scene_heap = Inr kw"
    and x0: "kw_x0 kw = flatten (GetArrayFromImage (sitk (scene_heap (self_reconstruction (scene_solver scene_heap)))))"
    and res: "ADMMLinearSolver scene_env kw = Inr res"
    and cur: "flatten (GetArrayFromImage (sitk (h1 (self_reconstruction self1)))) = res_x res"
    and nxt: "\<And>alpha iter_max env2 kw2.
                ADMMSolver_solver_kwargs env2 (set_iter_max (set_alpha self1 alpha) iter_max) h1 = Inr kw2
                \<Longrightarrow> kw_x0 kw2 = res_x res"
    by blast
  from x0 have x0': "kw_x0 kw = [1, 2]"
    by (simp add: scene_defs flatten_def GetArrayFromImage_def)
  with res have r: "res_x res = [2, 3]"
    by (auto simp: scene_env_def)
  from run obtain kw2 where kw2:
    "ADMMSolver_solver_kwargs scene_env (set_iter_max (set_alpha self1 (1 / 100)) 20) h1 = Inr kw2"
    by (auto simp: run_defs scene_defs set_alpha_def set_iter_max_def)
  from nxt [OF kw2] r have "kw_x0 kw2 = [2, 3]" by simp
  moreover have "get_x0 (scene_solver scene_heap) scene_heap = [1, 2]"
    by (simp add: run_defs scene_defs)
  ultimately show ?thesis using run kw2 by blast
qed

subsection \<open>What a run and the statistics change\<close>

text \<open>
  Claim C9. A completed run leaves \<open>self._reconstruction\<close> referring to the same object
  and every other object of the store as it was; of that object only the attributes
  \<open>itk\<close> and \<open>sitk\<close> are assigned, both to the image made from the solver result and the
  previous \<open>itk\<close> image; the mask and the file name are kept.
\<close>

theorem run_keeps_reconstruction_identity:
  assumes "ADMMSolver_run_reconstruction env self h = Inr (self1, h1)"
  shows "self_reconstruction self1 = self_reconstruction self
    \<and> (\<forall>a. a \<noteq> self_reconstruction self \<longrightarrow> h1 a = h a)
    \<and> (\<exists>kw res. ADMMSolver_solver_kwargs env self h = Inr kw
          \<and> ADMMLinearSolver env kw = Inr res
          \<and> h1 (self_reconstruction self) =
              (h (self_reconstruction self))
                \<lparr>itk := get_itk_image_from_array_vec (res_x res) (itk (h (self_reconstruction self))),
                 sitk := get_sitk_from_itk_image
                   (get_itk_image_from_array_vec (res_x res) (itk (h (self_reconstruction self))))\<rparr>)
    \<and> sitk_mask (h1 (self_reconstruction self)) = sitk_mask (h (self_reconstruction self))
    \<and> filename (h1 (self_reconstruction self)) = filename (h (self_reconstruction self))"
proof -
  from assms obtain kw res where kw: "ADMMSolver_solver_kwargs env self h = Inr kw"
    and res: "ADMMLinearSolver env kw = Inr res"
    and self1: "self1 = self\<lparr>self_computational_time := Some (res_computational_time res)\<rparr>"
    and h1: "h1 = h(self_reconstruction self :=
            (h (self_reconstruction self))
              \<lparr>itk := get_itk_image_from_array_vec (res_x res) (itk (h (self_reconstruction self))),
               sitk := get_sitk_from_itk_image
                 (get_itk_image_from_array_vec (res_x res) (itk (h (self_reconstruction self))))\<rparr>)"
    by (rule run_reconstruction_Inr)
  have "self_reconstruction self1 = self_reconstruction self"
    by (simp add: self1)
  moreover have "\<forall>a. a \<noteq> self_reconstruction self \<longrightarrow> h1 a = h a"
    by (simp add: h1)
  moreover have "h1 (self_reconstruction self) =
              (h (self_reconstruction self))
                \<lparr>itk := get_itk_image_from_array_vec (res_x res) (itk (h (self_reconstruction self))),
                 sitk := get_sitk_from_itk_image
                   (get_itk_image_from_array_vec (res_x res) (itk (h (self_reconstruction self))))\<rparr>"
    by (simp add: h1)
  moreover from this have
    "sitk_mask (h1 (self_reconstruction self)) = sitk_mask (h (self_reconstruction self))"
    "filename (h1 (self_reconstruction self)) = filename (h (self_reconstruction self))"
    by simp_all
  ultimately show ?thesis using kw res by blast
qed

theorem run_keeps_reconstruction_identity_witness:
  "\<exists>self1 h1. ADMMSolver_run_reconstruction scene_env (scene_solver scene_heap) scene_heap
        = Inr (self1, h1)
     \<and> self_reconstruction self1 = self_reconstruction (scene_solver scene_heap)
     \<and> h1 1 = scene_heap 1
     \<and> filename (h1 0) = ''volume''
     \<and> flat (pixels (sitk (h1 0))) = [2, 3]"
proof -
  obtain self1 h1 where run: "ADMMSolver_run_reconstruction scene_env (scene_solver scene_heap) scene_heap
        = Inr (self1, h1)"
    by (simp add: run_defs scene_defs)
  have r: "self_reconstruction (scene_solver scene_heap) = 0"
    by (simp add: scene_defs)
  from run_keeps_reconstruction_identity [OF run]
  have "self_reconstruction self1 = self_reconstruction (scene_solver scene_heap)"
    and "h1 1 = scene_heap 1"
    and "filename (h1 0) = filename (scene_heap 0)"
    by (simp_all add: r)
  moreover have "filename (scene_heap 0) = ''volume''"
    by (simp add: scene_defs)
  moreover from run have "flat (pixels (sitk (h1 0))) = [2, 3]"
    by (auto simp: run_defs scene_defs)
  ultimately show ?thesis using run by auto
qed

text \<open>
  Claim C7. When \<open>compute_statistics\<close> completes, the store, and with it the
  reconstruction volume, is unchanged, and the solver object differs only in
  \<open>_residual_ell2\<close>, which holds the Euclidean norm of \<open>A(x) - b\<close> for the flattened
  array \<open>x\<close> of the current reconstruction.
\<close>

theorem compute_statistics_frame:
  assumes "ADMMSolver_compute_statistics env self h = Inr (self1, h1)"
  shows "h1 = h
    \<and> (\<exists>A Ax b. get_A env self h = Inr A
          \<and> A (flatten (GetArrayFromImage (sitk (h (self_reconstruction self))))) = Inr Ax
          \<and> get_b env self h = Inr b
          \<and> length Ax = length b
          \<and> self1 = self\<lparr>self_residual_ell2 :=
                Some (sqrt (\<Sum>i<length b. (Ax ! i - b ! i)\<^sup>2))\<rparr>)"
proof -
  let ?x = "flatten (GetArrayFromImage (sitk (h (self_reconstruction self))))"
  from assms obtain r where r: "get_residual_ell2 env self h ?x = Inr r"
    and out: "self1 = self\<lparr>self_residual_ell2 := Some r\<rparr>" "h1 = h"
    by (auto simp: ADMMSolver_compute_statistics_def and_then_Inr_iff Let_def)
  from r obtain A Ax b d where A: "get_A env self h = Inr A" and Ax: "A ?x = Inr Ax"
    and b: "get_b env self h = Inr b" and d: "vec_sub Ax b = Inr d" and n: "r = ell2_norm d"
    by (auto simp: get_residual_ell2_def and_then_Inr_iff)
  from d have len: "length Ax = length b" and d': "d = map2 (-) Ax b"
    by (auto simp: vec_sub_def split: if_splits)
  have "r = sqrt (\<Sum>i<length b. (Ax ! i - b ! i)\<^sup>2)"
    unfolding n d' by (rule ell2_norm_difference [OF len])
  with A Ax b len out show ?thesis by blast
qed

theorem compute_statistics_frame_witness:
  "\<exists>self1. ADMMSolver_compute_statistics scene_env (scene_solver scene_heap) scene_heap
       = Inr (self1, scene_heap) \<and> self_residual_ell2 self1 = Some 0"
proof -
  obtain self1 h1 where run:
    "ADMMSolver_compute_statistics scene_env (scene_solver scene_heap) scene_heap = Inr (self1, h1)"
    by (simp add: ADMMSolver_compute_statistics_def get_residual_ell2_def vec_sub_def
        run_defs scene_defs)
  from compute_statistics_frame [OF run] have "h1 = scene_heap" by simp
  moreover from run have "self_residual_ell2 self1 = Some 0"
    by (auto simp: ADMMSolver_compute_statistics_def get_residual_ell2_def vec_sub_def
        ell2_norm_def run_defs scene_defs)
  ultimately show ?thesis using run by simp
qed

subsection \<open>Errors of a run\<close>



section \<open>Properties of the setting-specific file name\<close>

subsection \<open>Decimal renderings\<close>

lemma digit_char_inj:
  assumes "d < 10" "e < 10" "digit_char d = digit_char e"
  shows "d = e"
proof -
  have "distinct ''0123456789''" by simp
  moreover have "d < length ''0123456789''" "e < length ''0123456789''"
    using assms by simp_all
  ultimately show ?thesis
    using assms(3) unfolding digit_char_def by (simp only: nth_eq_iff_index_eq)
qed

lemma digit_char_mem: "d < 10 \<Longrightarrow> digit_char d \<in> set ''0123456789''"
  unfolding digit_char_def by (rule nth_mem) simp

lemma str_nat_digits: "set (str_nat n) \<subseteq> set ''0123456789''"
proof (induction n rule: str_nat.induct)
  case (1 n)
  show ?case
  proof (cases "n < 10")
    case True
    then show ?thesis
      using digit_char_mem [of n] by (subst str_nat.simps) simp
  next
    case False
    with 1 have "set (str_nat (n div 10)) \<subseteq> set ''0123456789''" by simp
    moreover have "digit_char (n mod 10) \<in> set ''0123456789''"
      by (rule digit_char_mem) simp
    ultimately show ?thesis
      using False by (subst str_nat.simps) simp
  qed
qed

lemma str_nat_not_Nil: "str_nat n \<noteq> []"
  by (subst str_nat.simps) simp

lemma str_nat_inj: "str_nat n = str_nat m \<Longrightarrow> n = m"
proof (induction n arbitrary: m rule: str_nat.induct)
  case (1 n)
  show ?case
  proof (cases "n < 10")
    case n: True
    show ?thesis
    proof (cases "m < 10")
      case True
      with n "1.prems" have "digit_char n = digit_char m"
        by (simp add: str_nat.simps [of n] str_nat.simps [of m])
      with n True show ?thesis by (rule digit_char_inj)
    next
      case False
      with n "1.prems" have "[digit_char n] = str_nat (m div 10) @ [digit_char (m mod 10)]"
        by (simp add: str_nat.simps [of n] str_nat.simps [of m])
      then have "str_nat (m div 10) = []" by simp
      then show ?thesis by (simp add: str_nat_not_Nil)
    qed
  next
    case n: False
    show ?thesis
    proof (cases "m < 10")
      case True
      with n "1.prems" have "str_nat (n div 10) @ [digit_char (n mod 10)] = [digit_char m]"
        by (simp add: str_nat.simps [of n] str_nat.simps [of m])
      then have "str_nat (n div 10) = []" by simp
      then show ?thesis by (simp add: str_nat_not_Nil)
    next
      case False
      with n "1.prems" have
        "str_nat (n div 10) @ [digit_char (n mod 10)] = str_nat (m div 10) @ [digit_char (m mod 10)]"
        by (simp add: str_nat.simps [of n] str_nat.simps [of m])
      then have q: "str_nat (n div 10) = str_nat (m div 10)"
        and r: "digit_char (n mod 10) = digit_char (m mod 10)" by simp_all
      from "1.IH" [OF n q] have "n div 10 = m div 10" .
      moreover have "n mod 10 = m mod 10"
        by (rule digit_char_inj [OF _ _ r]) simp_all
      ultimately show ?thesis by (metis div_mult_mod_eq)
    qed
  qed
qed

lemma str_int_chars: "set (str_int i) \<subseteq> set ''-0123456789''"
proof -
  have sub: "set ''0123456789'' \<subseteq> set ''-0123456789''"
    by (rule set_subset_Cons)
  show ?thesis
  proof (cases "i < 0")
    case True
    have "set (str_nat (nat (- i))) \<subseteq> set ''-0123456789''"
      using str_nat_digits sub by (rule subset_trans)
    with True show ?thesis by (simp add: str_int_def)
  next
    case False
    have "set (str_nat (nat i)) \<subseteq> set ''-0123456789''"
      using str_nat_digits sub by (rule subset_trans)
    with False show ?thesis by (simp add: str_int_def)
  qed
qed

lemma str_int_inj:
  assumes "str_int i = str_int j"
  shows "i = j"
proof -
  have no_minus: "hd (str_nat n) \<noteq> CHR ''-''" for n
  proof -
    have "hd (str_nat n) \<in> set (str_nat n)" by (simp add: str_nat_not_Nil)
    with str_nat_digits [of n] have "hd (str_nat n) \<in> set ''0123456789''" by (rule subsetD)
    moreover have "CHR ''-'' \<notin> set ''0123456789''" by simp
    ultimately show ?thesis by metis
  qed
  consider "i < 0" "j < 0" | "0 \<le> i" "0 \<le> j" | "i < 0" "0 \<le> j" | "0 \<le> i" "j < 0"
    by linarith
  then show ?thesis
  proof cases
    case 1
    with assms have "str_nat (nat (- i)) = str_nat (nat (- j))" by (simp add: str_int_def)
    then have "nat (- i) = nat (- j)" by (rule str_nat_inj)
    with 1 show ?thesis by simp
  next
    case 2
    with assms have "str_nat (nat i) = str_nat (nat j)" by (simp add: str_int_def)
    then have "nat i = nat j" by (rule str_nat_inj)
    with 2 show ?thesis by simp
  next
    case 3
    with assms have "CHR ''-'' # str_nat (nat (- i)) = str_nat (nat j)" by (simp add: str_int_def)
    then have "hd (str_nat (nat j)) = CHR ''-''" by (metis list.sel(1))
    with no_minus show ?thesis by simp
  next
    case 4
    with assms have "str_nat (nat i) = CHR ''-'' # str_nat (nat (- j))" by (simp add: str_int_def)
    then have "hd (str_nat (nat i)) = CHR ''-''" by (metis list.sel(1))
    with no_minus show ?thesis by simp
  qed
qed

lemma replace_dot_str_int: "replace_char CHR ''.'' CHR ''p'' (str_int i) = str_int i"
proof -
  have "CHR ''.'' \<notin> set ''-0123456789''" by simp
  with str_int_chars [of i] have "CHR ''.'' \<notin> set (str_int i)" by blast
  then have "map (\<lambda>c. if c = CHR ''.'' then CHR ''p'' else c) (str_int i) = str_int i"
    by (intro map_idI) metis
  then show ?thesis by (simp only: replace_char_def)
qed

lemma underscore_not_in_str_int: "CHR ''_'' \<notin> set (str_int i)"
proof -
  have "CHR ''_'' \<notin> set ''-0123456789''" by simp
  with str_int_chars [of i] show ?thesis by blast
qed

lemma split_at_separator:
  assumes "c \<notin> set xs" "c \<notin> set ys" "xs @ c # us = ys @ c # vs"
  shows "xs = ys \<and> us = vs"
  using assms
proof (induction xs arbitrary: ys)
  case Nil
  then show ?case by (cases ys) auto
next
  case (Cons x xs)
  then show ?case by (cases ys) auto
qed

lemma replace_char_append:
  "replace_char a b (xs @ ys) = replace_char a b xs @ replace_char a b ys"
  by (simp add: replace_char_def)

lemma replace_char_Nil: "replace_char a b [] = []"
  by (simp add: replace_char_def)

lemma replace_char_Cons:
  "replace_char a b (x # xs) = (if x = a then b else x) # replace_char a b xs"
  by (simp add: replace_char_def)

lemma filename_shape:
  "ADMMSolver_get_setting_specific_filename str_float self prefix =
     (replace_char CHR ''.'' CHR ''p'' prefix @ ''stacks'')
     @ str_int (int (length (self_stacks self)))
     @ CHR ''_'' #
       ((if 0 < self_alpha self then ''ADMM_TV_'' else [])
        @ replace_char CHR ''.'' CHR ''p'' (self_minimizer self)
        @ ''_alpha'' @ replace_char CHR ''.'' CHR ''p'' (str_float (self_alpha self))
        @ ''_itermax'')
     @ str_int (self_iter_max self)
     @ CHR ''_'' #
       (''rho'' @ replace_char CHR ''.'' CHR ''p'' (str_float (self_rho self))
        @ ''_ADMMiterations'')
     @ str_int (self_iterations self)"
  by (simp add: ADMMSolver_get_setting_specific_filename_def Let_def replace_char_append
      replace_char_Cons replace_char_Nil replace_dot_str_int)

lemma split_at_last_separator:
  assumes "c \<notin> set us" "c \<notin> set vs" "xs @ c # us = ys @ c # vs"
  shows "xs = ys \<and> us = vs"
proof -
  from assms(3) have "rev (xs @ c # us) = rev (ys @ c # vs)" by simp
  then have "rev us @ c # rev xs = rev vs @ c # rev ys" by simp
  moreover have "c \<notin> set (rev us)" "c \<notin> set (rev vs)"
    using assms(1,2) by simp_all
  ultimately have "rev us = rev vs \<and> rev xs = rev ys"
    by (intro split_at_separator)
  then show ?thesis by simp
qed

lemma replace_char_id: "a \<notin> set s \<Longrightarrow> replace_char a b s = s"
  by (induction s) (auto simp: replace_char_def)

lemma replace_char_inj:
  assumes "b \<notin> set s" "b \<notin> set t" "replace_char a b s = replace_char a b t"
  shows "s = t"
  using assms
proof (induction s arbitrary: t)
  case Nil
  then show ?case by (simp add: replace_char_def)
next
  case (Cons x s)
  then obtain y t' where t: "t = y # t'"
    by (cases t) (auto simp: replace_char_def)
  with Cons.prems have "x = y" and "replace_char a b s = replace_char a b t'"
    by (auto simp: replace_char_def split: if_splits)
  with Cons.IH [of t'] Cons.prems t show ?case by simp
qed

lemma replace_char_keeps_out:
  assumes "c \<notin> set s" "c \<noteq> b"
  shows "c \<notin> set (replace_char a b s)"
  using assms by (induction s) (auto simp: replace_char_def)

lemma filename_fields:
  "ADMMSolver_get_setting_specific_filename str_float self prefix =
     (((((replace_char CHR ''.'' CHR ''p'' prefix @ ''stacks'')
          @ str_int (int (length (self_stacks self)))
          @ CHR ''_'' #
            ((if 0 < self_alpha self then ''ADMM_TV_'' else [])
             @ replace_char CHR ''.'' CHR ''p'' (self_minimizer self)))
         @ CHR ''_'' # (''alpha'' @ replace_char CHR ''.'' CHR ''p'' (str_float (self_alpha self))))
        @ CHR ''_'' # (''itermax'' @ str_int (self_iter_max self)))
       @ CHR ''_'' # (''rho'' @ replace_char CHR ''.'' CHR ''p'' (str_float (self_rho self))))
      @ CHR ''_'' # (''ADMMiterations'' @ str_int (self_iterations self))"
  by (simp add: ADMMSolver_get_setting_specific_filename_def Let_def replace_char_append
      replace_char_Cons replace_char_Nil replace_dot_str_int)

lemma filename_parse:
  assumes eq: "ADMMSolver_get_setting_specific_filename str_float s1 prefix
         = ADMMSolver_get_setting_specific_filename str_float s2 prefix"
    and us: "CHR ''_'' \<notin> set (str_float (self_alpha s1))" "CHR ''_'' \<notin> set (str_float (self_alpha s2))"
      "CHR ''_'' \<notin> set (str_float (self_rho s1))" "CHR ''_'' \<notin> set (str_float (self_rho s2))"
  shows "replace_char CHR ''.'' CHR ''p'' (str_float (self_alpha s1))
           = replace_char CHR ''.'' CHR ''p'' (str_float (self_alpha s2))"
    and "replace_char CHR ''.'' CHR ''p'' (str_float (self_rho s1))
           = replace_char CHR ''.'' CHR ''p'' (str_float (self_rho s2))"
    and "self_iter_max s1 = self_iter_max s2"
    and "self_iterations s1 = self_iterations s2"
    and "str_int (int (length (self_stacks s1)))
          @ CHR ''_'' #
            ((if 0 < self_alpha s1 then ''ADMM_TV_'' else [])
             @ replace_char CHR ''.'' CHR ''p'' (self_minimizer s1))
       = str_int (int (length (self_stacks s2)))
          @ CHR ''_'' #
            ((if 0 < self_alpha s2 then ''ADMM_TV_'' else [])
             @ replace_char CHR ''.'' CHR ''p'' (self_minimizer s2))"
proof -
  have lit: "CHR ''_'' \<notin> set ''ADMMiterations''" "CHR ''_'' \<notin> set ''rho''"
    "CHR ''_'' \<notin> set ''itermax''" "CHR ''_'' \<notin> set ''alpha''"
    by simp_all
  have fl: "CHR ''_'' \<notin> set (replace_char CHR ''.'' CHR ''p'' (str_float x))"
    if "CHR ''_'' \<notin> set (str_float x)" for x
    using that by (rule replace_char_keeps_out) simp
  have seg: "CHR ''_'' \<notin> set (''ADMMiterations'' @ str_int i)"
    "CHR ''_'' \<notin> set (''itermax'' @ str_int i)" for i
    using underscore_not_in_str_int [of i] lit by simp_all
  have segf: "CHR ''_'' \<notin> set (''rho'' @ replace_char CHR ''.'' CHR ''p'' (str_float x))"
    "CHR ''_'' \<notin> set (''alpha'' @ replace_char CHR ''.'' CHR ''p'' (str_float x))"
    if "CHR ''_'' \<notin> set (str_float x)" for x
    using fl [OF that] lit by simp_all
  note e4 = split_at_last_separator [OF seg(1) seg(1) eq [unfolded filename_fields]]
  from e4 show "self_iterations s1 = self_iterations s2"
    by (auto dest: str_int_inj)
  note e3 = split_at_last_separator [OF segf(1) [OF us(3)] segf(1) [OF us(4)] e4 [THEN conjunct1]]
  from e3 show "replace_char CHR ''.'' CHR ''p'' (str_float (self_rho s1))
           = replace_char CHR ''.'' CHR ''p'' (str_float (self_rho s2))"
    by simp
  note e2 = split_at_last_separator [OF seg(2) seg(2) e3 [THEN conjunct1]]
  from e2 show "self_iter_max s1 = self_iter_max s2"
    by (auto dest: str_int_inj)
  note e1 = split_at_last_separator [OF segf(2) [OF us(1)] segf(2) [OF us(2)] e2 [THEN conjunct1]]
  from e1 show "replace_char CHR ''.'' CHR ''p'' (str_float (self_alpha s1))
           = replace_char CHR ''.'' CHR ''p'' (str_float (self_alpha s2))"
    by simp
  from e1 show "str_int (int (length (self_stacks s1)))
          @ CHR ''_'' #
            ((if 0 < self_alpha s1 then ''ADMM_TV_'' else [])
             @ replace_char CHR ''.'' CHR ''p'' (self_minimizer s1))
       = str_int (int (length (self_stacks s2)))
          @ CHR ''_'' #
            ((if 0 < self_alpha s2 then ''ADMM_TV_'' else [])
             @ replace_char CHR ''.'' CHR ''p'' (self_minimizer s2))"
    by simp
qed

lemma scene_filename:
  "ADMMSolver_get_setting_specific_filename scene_str_float (scene_solver scene_heap) ''SRR_''
     = ''SRR_stacks1_ADMM_TV_lsmr_alpha0p03_itermax10_rho0p5_ADMMiterations10''"
  by (simp add: ADMMSolver_get_setting_specific_filename_def Let_def replace_char_def
      scene_str_float_def str_int_def str_nat.simps scene_defs digit_char_def)

subsection \<open>What the file name tells apart\<close>

text \<open>
  Claim C3, as amended. The file name is a function of the prefix and of six values: the
  number of stacks, the minimizer, alpha, the iteration cap, rho and the number of ADMM
  iterations. Two solver states that agree on these have the same file name, whatever else
  differs. Two states with the same minimizer, alpha and rho that differ in the number
  of stacks, the iteration cap or the number of ADMM iterations have different file
  names, for every rendering \<open>str_float\<close> of floats. And when the two minimizers contain no
  dot, the renderings of the two alphas and the two rhos contain neither an underscore
  nor the letter p (as the renderings of Python floats do not), and different values of
  alpha, and of rho, are rendered differently, the file names are equal only if the two
  states agree on all six values.
\<close>

theorem filename_encodes_listed_parameters:
  "(length (self_stacks s1) = length (self_stacks s2)
      \<and> self_minimizer s1 = self_minimizer s2 \<and> self_alpha s1 = self_alpha s2
      \<and> self_iter_max s1 = self_iter_max s2 \<and> self_rho s1 = self_rho s2
      \<and> self_iterations s1 = self_iterations s2
     \<longrightarrow> ADMMSolver_get_setting_specific_filename str_float s1 prefix
         = ADMMSolver_get_setting_specific_filename str_float s2 prefix)
   \<and> (self_minimizer s1 = self_minimizer s2 \<and> self_alpha s1 = self_alpha s2
      \<and> self_rho s1 = self_rho s2
      \<and> (length (self_stacks s1) \<noteq> length (self_stacks s2)
         \<or> self_iter_max s1 \<noteq> self_iter_max s2
         \<or> self_iterations s1 \<noteq> self_iterations s2)
     \<longrightarrow> ADMMSolver_get_setting_specific_filename str_float s1 prefix
         \<noteq> ADMMSolver_get_setting_specific_filename str_float s2 prefix)
   \<and> (CHR ''.'' \<notin> set (self_minimizer s1) \<and> CHR ''.'' \<notin> set (self_minimizer s2)
      \<and> (\<forall>x \<in> {self_alpha s1, self_alpha s2, self_rho s1, self_rho s2}.
            CHR ''_'' \<notin> set (str_float x) \<and> CHR ''p'' \<notin> set (str_float x))
      \<and> (str_float (self_alpha s1) = str_float (self_alpha s2) \<longrightarrow> self_alpha s1 = self_alpha s2)
      \<and> (str_float (self_rho s1) = str_float (self_rho s2) \<longrightarrow> self_rho s1 = self_rho s2)
      \<and> ADMMSolver_get_setting_specific_filename str_float s1 prefix
         = ADMMSolver_get_setting_specific_filename str_float s2 prefix
     \<longrightarrow> length (self_stacks s1) = length (self_stacks s2)
         \<and> self_minimizer s1 = self_minimizer s2 \<and> self_alpha s1 = self_alpha s2
         \<and> self_iter_max s1 = self_iter_max s2 \<and> self_rho s1 = self_rho s2
         \<and> self_iterations s1 = self_iterations s2)"
  (is "(?A1 \<longrightarrow> ?B1) \<and> (?A2 \<longrightarrow> ?B2) \<and> (?A3 \<longrightarrow> ?B3)")
proof -
  have agree: "?A1 \<longrightarrow> ?B1"
    by (simp add: ADMMSolver_get_setting_specific_filename_def)
  have integers: "?A2 \<longrightarrow> ?B2"
  proof (rule impI, rule notI)
    assume a: ?A2
    assume eq: "ADMMSolver_get_setting_specific_filename str_float s1 prefix
         = ADMMSolver_get_setting_specific_filename str_float s2 prefix"
    define mid where "mid = (if 0 < self_alpha s2 then ''ADMM_TV_'' else [])
        @ replace_char CHR ''.'' CHR ''p'' (self_minimizer s2)
        @ ''_alpha'' @ replace_char CHR ''.'' CHR ''p'' (str_float (self_alpha s2))
        @ ''_itermax''"
    define post where "post = ''rho'' @ replace_char CHR ''.'' CHR ''p'' (str_float (self_rho s2))
        @ ''_ADMMiterations''"
    have shape: "ADMMSolver_get_setting_specific_filename str_float s prefix =
       (replace_char CHR ''.'' CHR ''p'' prefix @ ''stacks'')
       @ (str_int (int (length (self_stacks s)))
         @ CHR ''_'' # (mid @ (str_int (self_iter_max s) @ CHR ''_'' # (post @ str_int (self_iterations s)))))"
      if "self_minimizer s = self_minimizer s2" "self_alpha s = self_alpha s2"
        "self_rho s = self_rho s2" for s
      unfolding filename_shape mid_def post_def that by (simp only: append_assoc)
    from eq a have
      "str_int (int (length (self_stacks s1)))
         @ CHR ''_'' # (mid @ (str_int (self_iter_max s1) @ CHR ''_'' # (post @ str_int (self_iterations s1))))
       = str_int (int (length (self_stacks s2)))
         @ CHR ''_'' # (mid @ (str_int (self_iter_max s2) @ CHR ''_'' # (post @ str_int (self_iterations s2))))"
      by (simp only: shape same_append_eq)
    from split_at_separator [OF underscore_not_in_str_int underscore_not_in_str_int this]
    have n: "str_int (int (length (self_stacks s1))) = str_int (int (length (self_stacks s2)))"
      and "str_int (self_iter_max s1) @ CHR ''_'' # (post @ str_int (self_iterations s1))
         = str_int (self_iter_max s2) @ CHR ''_'' # (post @ str_int (self_iterations s2))"
      by simp_all
    from split_at_separator [OF underscore_not_in_str_int underscore_not_in_str_int this(2)]
    have i: "str_int (self_iter_max s1) = str_int (self_iter_max s2)"
      and j: "str_int (self_iterations s1) = str_int (self_iterations s2)"
      by simp_all
    from str_int_inj [OF n] str_int_inj [OF i] str_int_inj [OF j] a
    show False by simp
  qed
  have all_six: "?A3 \<longrightarrow> ?B3"
  proof (rule impI)
  assume h: ?A3
  then have dots: "CHR ''.'' \<notin> set (self_minimizer s1)" "CHR ''.'' \<notin> set (self_minimizer s2)"
    and us: "CHR ''_'' \<notin> set (str_float (self_alpha s1))" "CHR ''_'' \<notin> set (str_float (self_alpha s2))"
      "CHR ''_'' \<notin> set (str_float (self_rho s1))" "CHR ''_'' \<notin> set (str_float (self_rho s2))"
    and ps: "CHR ''p'' \<notin> set (str_float (self_alpha s1))" "CHR ''p'' \<notin> set (str_float (self_alpha s2))"
      "CHR ''p'' \<notin> set (str_float (self_rho s1))" "CHR ''p'' \<notin> set (str_float (self_rho s2))"
    and inj_alpha: "str_float (self_alpha s1) = str_float (self_alpha s2) \<Longrightarrow> self_alpha s1 = self_alpha s2"
    and inj_rho: "str_float (self_rho s1) = str_float (self_rho s2) \<Longrightarrow> self_rho s1 = self_rho s2"
    and eq: "ADMMSolver_get_setting_specific_filename str_float s1 prefix
         = ADMMSolver_get_setting_specific_filename str_float s2 prefix"
    by simp_all
  note parsed = filename_parse [OF eq us]
  from replace_char_inj [OF ps(1) ps(2) parsed(1)] have alpha: "self_alpha s1 = self_alpha s2"
    by (rule inj_alpha)
  from replace_char_inj [OF ps(3) ps(4) parsed(2)] have rho: "self_rho s1 = self_rho s2"
    by (rule inj_rho)
  from split_at_separator [OF underscore_not_in_str_int underscore_not_in_str_int parsed(5)]
  have n: "str_int (int (length (self_stacks s1))) = str_int (int (length (self_stacks s2)))"
    and "replace_char CHR ''.'' CHR ''p'' (self_minimizer s1)
           = replace_char CHR ''.'' CHR ''p'' (self_minimizer s2)"
    by (simp_all add: alpha)
  then have "self_minimizer s1 = self_minimizer s2"
    by (simp add: replace_char_id dots)
  moreover from str_int_inj [OF n] have "length (self_stacks s1) = length (self_stacks s2)"
    by simp
  ultimately show ?B3
    using alpha rho parsed(3,4) by simp
  qed
  from agree integers all_six show ?thesis by (intro conjI)
qed

theorem filename_encodes_listed_parameters_witness:
  "ADMMSolver_get_setting_specific_filename scene_str_float
       ((scene_solver scene_heap)\<lparr>self_verbose := 1\<rparr>) ''SRR_''
     = ADMMSolver_get_setting_specific_filename scene_str_float (scene_solver scene_heap) ''SRR_''
   \<and> ADMMSolver_get_setting_specific_filename scene_str_float
       ((scene_solver scene_heap)\<lparr>self_iter_max := 11\<rparr>) ''SRR_''
     \<noteq> ADMMSolver_get_setting_specific_filename scene_str_float (scene_solver scene_heap) ''SRR_''
   \<and> ADMMSolver_get_setting_specific_filename scene_str_float
       ((scene_solver scene_heap)\<lparr>self_minimizer := ''L-BFGS-B''\<rparr>) ''SRR_''
     \<noteq> ADMMSolver_get_setting_specific_filename scene_str_float (scene_solver scene_heap) ''SRR_''
   \<and> ADMMSolver_get_setting_specific_filename scene_str_float
       ((scene_solver scene_heap)\<lparr>self_alpha := 1 / 2\<rparr>) ''SRR_''
     \<noteq> ADMMSolver_get_setting_specific_filename scene_str_float (scene_solver scene_heap) ''SRR_''"
proof -
  note t1 = filename_encodes_listed_parameters
    [of "(scene_solver scene_heap)\<lparr>self_verbose := 1\<rparr>" "scene_solver scene_heap"
        scene_str_float "''SRR_''", THEN conjunct1]
  note t2 = filename_encodes_listed_parameters
    [of "(scene_solver scene_heap)\<lparr>self_iter_max := 11\<rparr>" "scene_solver scene_heap"
        scene_str_float "''SRR_''", THEN conjunct2, THEN conjunct1]
  note t3 = filename_encodes_listed_parameters
    [of "(scene_solver scene_heap)\<lparr>self_minimizer := ''L-BFGS-B''\<rparr>" "scene_solver scene_heap"
        scene_str_float "''SRR_''", THEN conjunct2, THEN conjunct2]
  note t4 = filename_encodes_listed_parameters
    [of "(scene_solver scene_heap)\<lparr>self_alpha := 1 / 2\<rparr>" "scene_solver scene_heap"
        scene_str_float "''SRR_''", THEN conjunct2, THEN conjunct2]
  have "ADMMSolver_get_setting_specific_filename scene_str_float
       ((scene_solver scene_heap)\<lparr>self_verbose := 1\<rparr>) ''SRR_''
     = ADMMSolver_get_setting_specific_filename scene_str_float (scene_solver scene_heap) ''SRR_''"
    using t1 by (simp add: scene_defs)
  moreover have "ADMMSolver_get_setting_specific_filename scene_str_float
       ((scene_solver scene_heap)\<lparr>self_iter_max := 11\<rparr>) ''SRR_''
     \<noteq> ADMMSolver_get_setting_specific_filename scene_str_float (scene_solver scene_heap) ''SRR_''"
    using t2 by (simp add: scene_defs)
  moreover have "ADMMSolver_get_setting_specific_filename scene_str_float
       ((scene_solver scene_heap)\<lparr>self_minimizer := ''L-BFGS-B''\<rparr>) ''SRR_''
     \<noteq> ADMMSolver_get_setting_specific_filename scene_str_float (scene_solver scene_heap) ''SRR_''"
    using t3 by (auto simp: scene_defs scene_str_float_def)
  moreover have "ADMMSolver_get_setting_specific_filename scene_str_float
       ((scene_solver scene_heap)\<lparr>self_alpha := 1 / 2\<rparr>) ''SRR_''
     \<noteq> ADMMSolver_get_setting_specific_filename scene_str_float (scene_solver scene_heap) ''SRR_''"
    using t4 by (auto simp: scene_defs scene_str_float_def)
  ultimately show ?thesis by simp
qed

text \<open>
  Claim C3 as stated fails. Two states that differ in the minimizer, \<open>"a.b"\<close> and
  \<open>"apb"\<close> (the constructor takes any string), have the same file name: the replacement
  of dots merges them. And two states that differ in the cut-off distance \<open>alpha_cut\<close>, a
  parameter of the constructor, have the same file name: it is not encoded.
\<close>

theorem filename_not_injective_counterexample:
  "self_minimizer ((scene_solver scene_heap)\<lparr>self_minimizer := ''a.b''\<rparr>)
     \<noteq> self_minimizer ((scene_solver scene_heap)\<lparr>self_minimizer := ''apb''\<rparr>)
   \<and> ADMMSolver_get_setting_specific_filename scene_str_float
       ((scene_solver scene_heap)\<lparr>self_minimizer := ''a.b''\<rparr>) ''SRR_''
     = ADMMSolver_get_setting_specific_filename scene_str_float
       ((scene_solver scene_heap)\<lparr>self_minimizer := ''apb''\<rparr>) ''SRR_''
   \<and> self_alpha_cut ((scene_solver scene_heap)\<lparr>self_alpha_cut := 4\<rparr>)
     \<noteq> self_alpha_cut (scene_solver scene_heap)
   \<and> ADMMSolver_get_setting_specific_filename scene_str_float
       ((scene_solver scene_heap)\<lparr>self_alpha_cut := 4\<rparr>) ''SRR_''
     = ADMMSolver_get_setting_specific_filename scene_str_float (scene_solver scene_heap) ''SRR_''"
  by (simp add: ADMMSolver_get_setting_specific_filename_def Let_def replace_char_def scene_defs)

section \<open>Properties of the resampling\<close>

lemmas resampling_defs = resampling_def flag_fast_computation_def mgrid_def fast_pixel_def
  slow_pixel_def linear_pixel_def dot3_def np_round_def ravel_get_def index_by_float_def
  py_index_def and_then_def Let_def upt_rec

lemmas demo_defs = demo_floating_def demo_reference_def demo_shift_def demo_shift_out_def

lemma row_major_index_bound:
  assumes "0 \<le> r0" "r0 < int r" "0 \<le> r1" "r1 < int c"
  shows "0 \<le> r1 + r0 * int c" and "r1 + r0 * int c < int (r * c)"
proof -
  show "0 \<le> r1 + r0 * int c" using assms by simp
  have "r1 + r0 * int c < int c + r0 * int c" using assms by simp
  also have "\<dots> = (r0 + 1) * int c" by (simp add: algebra_simps)
  also have "\<dots> \<le> int r * int c"
    using assms by (intro mult_right_mono) simp_all
  finally show "r1 + r0 * int c < int (r * c)" by simp
qed

text \<open>
  With order 0 every pixel of the result is a pixel of the floating image, wherever the
  position lies: the padding value never appears.
\<close>

lemma fast_pixel_reads_floating:
  assumes "0 < rows floating" "0 < cols floating"
    and "length (elems floating) = rows floating * cols floating"
  shows "\<exists>k<length (elems floating). fast_pixel floating transformation ij = Inr (elems floating ! k)"
proof -
  obtain p0 p1 p2 where p: "dot3 transformation (real (fst ij), real (snd ij), 1) = (p0, p1, p2)"
    by (cases "dot3 transformation (real (fst ij), real (snd ij), 1)") auto
  define r0 where "r0 = (let r = np_round p0; r = (if r < 0 then 0 else r)
                         in if int (rows floating) \<le> r then 0 else r)"
  define r1 where "r1 = (let r = np_round p1; r = (if r < 0 then 0 else r)
                         in if int (cols floating) \<le> r then 0 else r)"
  have b0: "0 \<le> r0" "r0 < int (rows floating)"
    using assms(1) by (auto simp: r0_def Let_def)
  have b1: "0 \<le> r1" "r1 < int (cols floating)"
    using assms(2) by (auto simp: r1_def Let_def)
  have idx: "0 \<le> r1 + r0 * int (cols floating)"
    "r1 + r0 * int (cols floating) < int (length (elems floating))"
    using row_major_index_bound [OF b0 b1] assms(3) by simp_all
  have "fast_pixel floating transformation ij = ravel_get floating (r1 + r0 * int (cols floating))"
    by (simp add: fast_pixel_def p r0_def r1_def Let_def)
  also have "\<dots> = Inr (elems floating ! nat (r1 + r0 * int (cols floating)))"
    using idx by (simp add: ravel_get_def py_index_def and_then_def)
  finally show ?thesis using idx by (intro exI [of _ "nat (r1 + r0 * int (cols floating))"]) simp
qed

text \<open>
  The other two branches give the padding value to a position outside the floating image.
\<close>

lemma linear_pixel_pads_outside:
  assumes "dot3 transformation (real (fst ij), real (snd ij), 1) = (p0, p1, p2)"
    and "p0 < 0 \<or> p1 < 0 \<or> real (rows floating) - 1 < p0 \<or> real (cols floating) - 1 < p1"
  shows "linear_pixel floating transformation padding ij = Inr padding"
  using assms by (auto simp: linear_pixel_def)

lemma slow_pixel_pads_outside:
  assumes "dot3 transformation (real (fst ij), real (snd ij), 1) = (p0, p1, p2)"
    and "p0 < 0 \<or> p1 < 0 \<or> real (rows floating) - 1 < p0 \<or> real (cols floating) - 1 < p1"
  shows "slow_pixel floating transformation padding ij = Inr padding"
  using assms by (auto simp: slow_pixel_def)

text \<open>
  Claim C5 on the code. Under the translation by one row the reference pixels \<open>(0, 0)\<close>
  and \<open>(0, 1)\<close> lie at \<open>(-1, 0)\<close> and \<open>(-1, 1)\<close>, outside the floating image; under the
  translation by two rows every reference pixel lies outside. With the default order 0
  and padding 0 the pixels outside receive the intensities 1 and 2 of row 0 of the
  floating image, not the padding value. On the second input the branch for order 1
  gives every pixel the padding value.
\<close>

theorem resampling_fast_path_reads_row_zero:
  "dot3 demo_shift (real 0, real 0, 1) = (- 1, 0, 1)
   \<and> dot3 demo_shift (real 0, real 1, 1) = (- 1, 1, 1)
   \<and> resampling demo_reference demo_floating demo_shift 0 0
       = Inr \<lparr>rows = 2, cols = 2, elems = [1, 2, 1, 2]\<rparr>
   \<and> resampling demo_reference demo_floating demo_shift_out 0 0
       = Inr \<lparr>rows = 2, cols = 2, elems = [1, 2, 1, 2]\<rparr>
   \<and> resampling demo_reference demo_floating demo_shift_out 1 0
       = Inr \<lparr>rows = 2, cols = 2, elems = [0, 0, 0, 0]\<rparr>"
  by (simp add: resampling_defs demo_defs)

end
